theory Spec2Isabelle
  imports Complex_Main "HOL-Library.Stream"
begin

section \<open>Retro AI Snake: the data model of \<open>retro_ai_snake.py\<close>\<close>

text \<open>
  The development embeds the two classes of \<open>retro_ai_snake.py\<close>: \<open>AIGameMaster\<close>
  (player profile, skill classification, difficulty adaptation, move prediction, spawn
  decision, profile update) and the game logic of \<open>RetroSnakeGame\<close> (food and power-up
  placement, the per-tick update). Rendering and keyboard handling are not modelled.

  The string tokens the program uses as closed enumerations are datatypes:
  \<open>'up' | 'down' | 'left' | 'right'\<close>, the four skill levels, the two death causes and
  the three power-up types. Python floats are modelled as \<open>real\<close>; integers as \<open>int\<close>.
  \<open>games_played\<close> starts at 0 and is only ever incremented, so it is a \<open>nat\<close>.
\<close>

datatype direction = Up | Down | Left | Right

datatype skill = Beginner | Intermediate | Advanced | Expert

datatype death_cause = Wall | Self

datatype power_up_type = Speed_boost | Score_multiplier | Invincible

datatype py_error = IndexError

type_synonym cell = "int \<times> int"

text \<open>The dictionary \<open>self.player_data\<close>. The two inner dictionaries have a fixed key set
  (created in \<open>__init__\<close>, never extended), so they are total functions on their keys.\<close>

record player_data =
  games_played :: nat
  avg_score :: real
  avg_game_time :: real
  movement_patterns :: "direction list list"
  death_causes :: "death_cause \<Rightarrow> int"
  preferred_directions :: "direction \<Rightarrow> int"
  reaction_times :: "real list"
  skill_level :: skill

text \<open>The attributes of an \<open>AIGameMaster\<close> object.\<close>

record AIGameMaster =
  player_data :: player_data
  base_speed :: int
  current_speed :: int
  power_up_frequency :: real
  obstacle_chance :: real

text \<open>A power-up dictionary \<open>{'pos': .., 'type': .., 'timer': ..}\<close>.\<close>

record power_up =
  pos :: cell
  ptype :: power_up_type
  timer :: int

text \<open>The game attributes of a \<open>RetroSnakeGame\<close> object that \<open>update_game\<close> reads or
  writes. The deque \<open>self.snake\<close> is a list with the head at index 0.\<close>

record RetroSnakeGame =
  snake :: "cell list"
  direction :: direction
  last_direction :: direction
  food :: cell
  power_ups :: "power_up list"
  score :: int
  game_over :: bool
  paused :: bool
  movement_history :: "direction list"
  ai_prediction :: "direction option"
  show_ai_hints :: bool
  ai_master :: AIGameMaster

text \<open>
  The module-level generator of \<open>random\<close> is an input of the model: for each of the three
  kinds of call the program makes, the stream of values the successive calls of that kind
  deliver. \<open>randint a b\<close> reduces the next raw integer into \<open>[a, b]\<close>, so that every
  stream describes a run in which each draw is in range, and every run is described by
  some stream.
\<close>

record rng =
  ints :: "int stream"
  floats :: "real stream"
  choices :: "power_up_type stream"

definition randint :: "int \<Rightarrow> int \<Rightarrow> rng \<Rightarrow> int \<times> rng" where
  "randint a b r = (a + shd (ints r) mod (b - a + 1), r\<lparr>ints := stl (ints r)\<rparr>)"

definition random :: "rng \<Rightarrow> real \<times> rng" where
  "random r = (shd (floats r), r\<lparr>floats := stl (floats r)\<rparr>)"

definition choice :: "rng \<Rightarrow> power_up_type \<times> rng" where
  "choice r = (shd (choices r), r\<lparr>choices := stl (choices r)\<rparr>)"

section \<open>\<open>AIGameMaster\<close>\<close>

subsection \<open>\<open>analyze_skill_level\<close>\<close>

definition analyze_skill_level :: "AIGameMaster \<Rightarrow> skill" where
  "analyze_skill_level ai =
     (if games_played (player_data ai) < 3 then Beginner
      else
        let avg_score = avg_score (player_data ai);
            avg_time = avg_game_time (player_data ai)
        in if avg_score > 200 \<and> avg_time > 120 then Expert
           else if avg_score > 100 \<and> avg_time > 60 then Advanced
           else if avg_score > 50 \<and> avg_time > 30 then Intermediate
           else Beginner)"

subsection \<open>\<open>adapt_difficulty\<close>\<close>

fun base_speeds :: "skill \<Rightarrow> int" where
  "base_speeds Beginner = 8"
| "base_speeds Intermediate = 12"
| "base_speeds Advanced = 16"
| "base_speeds Expert = 20"

text \<open>The method assigns, in this order, \<open>player_data['skill_level']\<close>, \<open>base_speed\<close>,
  \<open>current_speed\<close> and \<open>power_up_frequency\<close>. The parameter \<open>game_time\<close> is not read.\<close>

definition adapt_difficulty :: "AIGameMaster \<Rightarrow> int \<Rightarrow> real \<Rightarrow> AIGameMaster" where
  "adapt_difficulty ai current_score game_time =
     (let skill = analyze_skill_level ai;
          ai1 = ai\<lparr>player_data := (player_data ai)\<lparr>skill_level := skill\<rparr>\<rparr>;
          ai2 = ai1\<lparr>base_speed := base_speeds skill\<rparr>;
          ai3 =
            (if real_of_int current_score > avg_score (player_data ai2) * 1.2
               then ai2\<lparr>current_speed := min (base_speed ai2 + 3) 25\<rparr>
             else if real_of_int current_score < avg_score (player_data ai2) * 0.8
               then ai2\<lparr>current_speed := max (base_speed ai2 - 2) 6\<rparr>
             else ai2\<lparr>current_speed := base_speed ai2\<rparr>)
      in if skill = Beginner then ai3\<lparr>power_up_frequency := 0.4\<rparr>
         else if skill = Expert then ai3\<lparr>power_up_frequency := 0.2\<rparr>
         else ai3\<lparr>power_up_frequency := 0.3\<rparr>)"

subsection \<open>\<open>predict_next_move\<close>\<close>

text \<open>
  \<open>direction_weights\<close> is a Python dictionary, which iterates in insertion order: an
  association list, to which a new key is appended. \<open>bump\<close> is the statement
  \<open>direction_weights[direction] = direction_weights.get(direction, 0) + 1\<close>.
\<close>

fun bump :: "'a \<Rightarrow> ('a \<times> nat) list \<Rightarrow> ('a \<times> nat) list" where
  "bump d [] = [(d, 1)]"
| "bump d ((k, c) # w) = (if k = d then (k, c + 1) # w else (k, c) # bump d w)"

text \<open>The two nested \<open>for\<close> loops over \<open>recent_patterns\<close>.\<close>

definition count_pattern :: "('a \<times> nat) list \<Rightarrow> 'a list \<Rightarrow> ('a \<times> nat) list" where
  "count_pattern w pattern = foldl (\<lambda>w d. bump d w) w pattern"

definition count_patterns :: "'a list list \<Rightarrow> ('a \<times> nat) list" where
  "count_patterns patterns = foldl count_pattern [] patterns"

text \<open>\<open>max(direction_weights, key=direction_weights.get)\<close>: Python's \<open>max\<close> walks the keys
  in iteration order and replaces its candidate only by a strictly larger one.\<close>

fun max_from :: "'a \<Rightarrow> nat \<Rightarrow> ('a \<times> nat) list \<Rightarrow> 'a" where
  "max_from k c [] = k"
| "max_from k c ((k', c') # w) = (if c' > c then max_from k' c' w else max_from k c w)"

text \<open>The slice \<open>xs[-n:]\<close>.\<close>

definition last_n :: "nat \<Rightarrow> 'a list \<Rightarrow> 'a list" where
  "last_n n xs = drop (length xs - n) xs"

definition predict_next_move :: "AIGameMaster \<Rightarrow> cell \<Rightarrow> direction \<Rightarrow> direction option" where
  "predict_next_move ai snake_head last_dir =
     (if movement_patterns (player_data ai) = [] then None
      else
        let recent_patterns = last_n 10 (movement_patterns (player_data ai));
            direction_weights = count_patterns recent_patterns
        in case direction_weights of
             (k, c) # w \<Rightarrow> Some (max_from k c w)
           | [] \<Rightarrow> None)"

subsection \<open>\<open>should_spawn_power_up\<close>\<close>

definition should_spawn_power_up :: "AIGameMaster \<Rightarrow> int \<Rightarrow> nat \<Rightarrow> rng \<Rightarrow> bool \<times> rng" where
  "should_spawn_power_up ai current_score snake_length r =
     (if real_of_int current_score < avg_score (player_data ai) * 0.7
        then (let (u, r') = random r in (u < power_up_frequency ai * 1.5, r'))
      else (let (u, r') = random r in (u < power_up_frequency ai, r')))"

subsection \<open>\<open>update_player_stats\<close>\<close>

text \<open>The loop \<open>for direction in movements\<close>; the membership test in the dictionary with
  the four direction keys is always true.\<close>

definition count_directions :: "(direction \<Rightarrow> int) \<Rightarrow> direction list \<Rightarrow> (direction \<Rightarrow> int)" where
  "count_directions prefs movements = foldl (\<lambda>m d. m(d := m d + 1)) prefs movements"

text \<open>\<open>save_player_data\<close> writes the dictionary to \<open>snake_ai_data.json\<close> and swallows every
  exception: it does not change the object, and is not part of the state here.\<close>

definition update_player_stats ::
    "AIGameMaster \<Rightarrow> int \<Rightarrow> real \<Rightarrow> death_cause \<Rightarrow> direction list \<Rightarrow> AIGameMaster" where
  "update_player_stats ai sc game_time cause movements =
     (let pd = player_data ai;
          games = games_played pd + 1;
          pd1 = pd\<lparr>games_played := games\<rparr>;
          pd2 = pd1\<lparr>avg_score :=
                  (avg_score pd1 * real (games - 1) + real_of_int sc) / real games\<rparr>;
          pd3 = pd2\<lparr>avg_game_time :=
                  (avg_game_time pd2 * real (games - 1) + game_time) / real games\<rparr>;
          pd4 = pd3\<lparr>death_causes := (death_causes pd3)(cause := death_causes pd3 cause + 1)\<rparr>;
          pd5 = pd4\<lparr>movement_patterns := movement_patterns pd4 @ [last_n 20 movements]\<rparr>;
          pd6 = (if length (movement_patterns pd5) > 50
                   then pd5\<lparr>movement_patterns := tl (movement_patterns pd5)\<rparr>
                 else pd5);
          pd7 = pd6\<lparr>preferred_directions := count_directions (preferred_directions pd6) movements\<rparr>
      in ai\<lparr>player_data := pd7\<rparr>)"

section \<open>\<open>RetroSnakeGame\<close>\<close>

subsection \<open>Grid constants\<close>

definition WINDOW_WIDTH :: int where "WINDOW_WIDTH = 800"
definition WINDOW_HEIGHT :: int where "WINDOW_HEIGHT = 600"
definition GRID_SIZE :: int where "GRID_SIZE = 20"
definition GRID_WIDTH :: int where "GRID_WIDTH = WINDOW_WIDTH div GRID_SIZE"
definition GRID_HEIGHT :: int where "GRID_HEIGHT = (WINDOW_HEIGHT - 100) div GRID_SIZE"

subsection \<open>\<open>spawn_food\<close> and \<open>spawn_power_up\<close>\<close>

text \<open>Both methods are \<open>while True\<close> loops that draw a cell and return at the first
  draw that passes the test. A run of the loop that never returns is the value \<open>None\<close>.\<close>

partial_function (option) spawn_food :: "cell list \<Rightarrow> rng \<Rightarrow> (cell \<times> rng) option" where
  "spawn_food sn r =
     (case randint 0 (GRID_WIDTH - 1) r of (x, r1) \<Rightarrow>
      case randint 0 (GRID_HEIGHT - 1) r1 of (y, r2) \<Rightarrow>
        if (x, y) \<notin> set sn then Some ((x, y), r2) else spawn_food sn r2)"

partial_function (option) spawn_power_up ::
    "cell list \<Rightarrow> cell \<Rightarrow> rng \<Rightarrow> (power_up \<times> rng) option" where
  "spawn_power_up sn fd r =
     (case randint 0 (GRID_WIDTH - 1) r of (x, r1) \<Rightarrow>
      case randint 0 (GRID_HEIGHT - 1) r1 of (y, r2) \<Rightarrow>
        if (x, y) \<notin> set sn \<and> (x, y) \<noteq> fd
          then (case choice r2 of (t, r3) \<Rightarrow>
                  Some (\<lparr>pos = (x, y), ptype = t, timer = 300\<rparr>, r3))
        else spawn_power_up sn fd r2)"

subsection \<open>\<open>reset_game\<close>\<close>

definition reset_game :: "RetroSnakeGame \<Rightarrow> rng \<Rightarrow> (RetroSnakeGame \<times> rng) option" where
  "reset_game g r =
     (let start_x = GRID_WIDTH div 2;
          start_y = GRID_HEIGHT div 2;
          g1 = g\<lparr>snake := [(start_x, start_y)], direction := Right, last_direction := Right\<rparr>
      in case spawn_food (snake g1) r of
           None \<Rightarrow> None
         | Some (f, r') \<Rightarrow>
             Some (g1\<lparr>food := f, power_ups := [], score := 0, game_over := False,
                      paused := False, movement_history := [], ai_prediction := None,
                      show_ai_hints := True\<rparr>, r'))"

subsection \<open>\<open>handle_power_up\<close>\<close>

definition handle_power_up :: "RetroSnakeGame \<Rightarrow> power_up \<Rightarrow> RetroSnakeGame" where
  "handle_power_up g p =
     (if ptype p = Score_multiplier then g\<lparr>score := score g + 50\<rparr>
      else if ptype p = Speed_boost then g\<lparr>score := score g + 25\<rparr>
      else if ptype p = Invincible then g\<lparr>score := score g + 30\<rparr>
      else g)"

subsection \<open>\<open>update_game\<close>\<close>

text \<open>The four-way branch on \<open>self.direction\<close> that computes \<open>new_head\<close>.\<close>

fun move :: "cell \<Rightarrow> direction \<Rightarrow> cell" where
  "move (head_x, head_y) Up = (head_x, head_y - 1)"
| "move (head_x, head_y) Down = (head_x, head_y + 1)"
| "move (head_x, head_y) Left = (head_x - 1, head_y)"
| "move (head_x, head_y) Right = (head_x + 1, head_y)"

text \<open>The collision block: the wall test first, the self test in its \<open>elif\<close>. The snake
  it is given is \<open>self.snake\<close> as it is before \<open>appendleft\<close> and \<open>pop\<close>.\<close>

definition wall_hit :: "cell \<Rightarrow> bool" where
  "wall_hit c = (fst c < 0 \<or> fst c \<ge> GRID_WIDTH \<or> snd c < 0 \<or> snd c \<ge> GRID_HEIGHT)"

definition collision :: "cell \<Rightarrow> cell list \<Rightarrow> death_cause option" where
  "collision new_head sn =
     (if wall_hit new_head then Some Wall
      else if new_head \<in> set sn then Some Self
      else None)"

text \<open>The food block. \<open>self.snake.pop()\<close> removes the last cell.\<close>

definition food_step :: "cell \<Rightarrow> RetroSnakeGame \<Rightarrow> rng \<Rightarrow> (RetroSnakeGame \<times> rng) option" where
  "food_step new_head g r =
     (if new_head = food g then
        (let g1 = g\<lparr>score := score g + 10\<rparr> in
         case spawn_food (snake g1) r of
           None \<Rightarrow> None
         | Some (f, r1) \<Rightarrow>
             (let g2 = g1\<lparr>food := f\<rparr> in
              case should_spawn_power_up (ai_master g2) (score g2) (length (snake g2)) r1 of
                (True, r2) \<Rightarrow>
                  (case spawn_power_up (snake g2) (food g2) r2 of
                     None \<Rightarrow> None
                   | Some (p, r3) \<Rightarrow> Some (g2\<lparr>power_ups := power_ups g2 @ [p]\<rparr>, r3))
              | (False, r2) \<Rightarrow> Some (g2, r2)))
      else Some (g\<lparr>snake := butlast (snake g)\<rparr>, r))"

text \<open>The pickup loop runs over the copy \<open>self.power_ups[:]\<close>; \<open>list.remove\<close> deletes the
  first equal element of \<open>self.power_ups\<close>.\<close>

fun pickup_loop :: "cell \<Rightarrow> power_up list \<Rightarrow> RetroSnakeGame \<Rightarrow> RetroSnakeGame" where
  "pickup_loop new_head [] g = g"
| "pickup_loop new_head (p # ps) g =
     (if new_head = pos p
        then pickup_loop new_head ps
               ((handle_power_up g p)\<lparr>power_ups := remove1 p (power_ups (handle_power_up g p))\<rparr>)
      else pickup_loop new_head ps g)"

text \<open>The timer loop decrements each dictionary in place and removes it when its timer
  is no longer positive. The dictionaries are distinct objects and the ones that stay in
  front of the current one have a positive timer, so \<open>remove\<close> deletes the object that was
  just decremented: the loop keeps, in order, the decremented power-ups that are still
  positive.\<close>

fun timer_loop :: "power_up list \<Rightarrow> power_up list" where
  "timer_loop [] = []"
| "timer_loop (p # ps) =
     (let p' = p\<lparr>timer := timer p - 1\<rparr>
      in if timer p' \<le> 0 then timer_loop ps else p' # timer_loop ps)"

text \<open>One call of \<open>update_game\<close>. \<open>game_time\<close> is the elapsed time read from the clock.
  \<open>self.snake[0]\<close> raises \<open>IndexError\<close> on an empty deque.\<close>

definition update_game ::
    "RetroSnakeGame \<Rightarrow> rng \<Rightarrow> real \<Rightarrow> (py_error + RetroSnakeGame \<times> rng) option" where
  "update_game g r game_time =
     (if paused g \<or> game_over g then Some (Inr (g, r))
      else
        let g1 = g\<lparr>ai_master := adapt_difficulty (ai_master g) (score g) game_time\<rparr> in
        case snake g1 of
          [] \<Rightarrow> Some (Inl IndexError)
        | head # _ \<Rightarrow>
            (let g2 = g1\<lparr>ai_prediction :=
                        predict_next_move (ai_master g1) head (last_direction g1)\<rparr>;
                 new_head = move head (direction g2)
             in case collision new_head (snake g2) of
                  Some cause \<Rightarrow>
                    Some (Inr (g2\<lparr>game_over := True,
                                  ai_master := update_player_stats (ai_master g2) (score g2)
                                                 game_time cause (movement_history g2)\<rparr>, r))
                | None \<Rightarrow>
                    (let g3 = g2\<lparr>snake := new_head # snake g2,
                                 last_direction := direction g2\<rparr>
                     in case food_step new_head g3 r of
                          None \<Rightarrow> None
                        | Some (g4, r') \<Rightarrow>
                            (let g5 = pickup_loop new_head (power_ups g4) g4
                             in Some (Inr (g5\<lparr>power_ups := timer_loop (power_ups g5)\<rparr>, r'))))))"

section \<open>Auxiliary definitions for the statements\<close>

subsection \<open>The classifier and the controller as the specification words them\<close>

text \<open>The order \<open>Beginner < Intermediate < Advanced < Expert\<close>.\<close>

definition tier_rank :: "skill \<Rightarrow> nat" where
  "tier_rank s = (case s of Beginner \<Rightarrow> 0 | Intermediate \<Rightarrow> 1 | Advanced \<Rightarrow> 2 | Expert \<Rightarrow> 3)"

text \<open>The first-match table of the specification's SkillClassifier.\<close>

definition skill_table :: "nat \<Rightarrow> real \<Rightarrow> real \<Rightarrow> skill" where
  "skill_table gamesPlayed avgScore avgGameTime =
     (if gamesPlayed < 3 then Beginner
      else if avgScore > 200 \<and> avgGameTime > 120 then Expert
      else if avgScore > 100 \<and> avgGameTime > 60 then Advanced
      else if avgScore > 50 \<and> avgGameTime > 30 then Intermediate
      else Beginner)"

text \<open>The speed and the power-up frequency of the specification's DifficultyController,
  as functions of the tier, the average score and the current score.\<close>

definition speed_for :: "skill \<Rightarrow> real \<Rightarrow> int \<Rightarrow> int" where
  "speed_for sk avg cs =
     (if real_of_int cs > avg * 1.2 then min (base_speeds sk + 3) 25
      else if real_of_int cs < avg * 0.8 then max (base_speeds sk - 2) 6
      else base_speeds sk)"

definition frequency_for :: "skill \<Rightarrow> real" where
  "frequency_for sk = (if sk = Beginner then 0.4 else if sk = Expert then 0.2 else 0.3)"

subsection \<open>Prediction\<close>

text \<open>The directions of the ten most recent history entries, pooled in order.\<close>

definition pooled :: "AIGameMaster \<Rightarrow> direction list" where
  "pooled ai = concat (last_n 10 (movement_patterns (player_data ai)))"

text \<open>The elements of a list in the order of their first occurrence: the key order of
  a Python dictionary filled from the list.\<close>

definition first_seen :: "'a list \<Rightarrow> 'a list" where
  "first_seen xs = rev (remdups (rev xs))"

text \<open>The specification's PredictionEngine: \<open>None\<close> on an empty history, otherwise the
  direction with the highest pooled count, ties broken by the priority order
  \<open>Up, Down, Left, Right\<close>.\<close>

definition predict_by_priority :: "direction list list \<Rightarrow> direction option" where
  "predict_by_priority history =
     (if history = [] then None
      else
        let pooled = concat (last_n 10 history);
            best = fold max (map (count_list pooled) [Up, Down, Left, Right]) 0
        in find (\<lambda>d. count_list pooled d = best) [Up, Down, Left, Right])"

subsection \<open>Profiles the program reaches\<close>

text \<open>The object \<open>AIGameMaster.__init__\<close> builds when no data file exists.\<close>

definition initial_ai :: AIGameMaster where
  "initial_ai =
     \<lparr>player_data =
        \<lparr>games_played = 0, avg_score = 0, avg_game_time = 0, movement_patterns = [],
         death_causes = (\<lambda>_. 0), preferred_directions = (\<lambda>_. 0), reaction_times = [],
         skill_level = Beginner\<rparr>,
      base_speed = 10, current_speed = 10, power_up_frequency = 0.3, obstacle_chance = 0\<rparr>"

text \<open>Three games that each end at the wall with score 300 after 200 seconds.\<close>

definition three_good_games :: AIGameMaster where
  "three_good_games =
     update_player_stats
       (update_player_stats (update_player_stats initial_ai 300 200 Wall []) 300 200 Wall [])
       300 200 Wall []"

text \<open>Three games that each end at the wall with score 60 after 40 seconds.\<close>

definition three_fair_games :: AIGameMaster where
  "three_fair_games =
     update_player_stats
       (update_player_stats (update_player_stats initial_ai 60 40 Wall []) 60 40 Wall [])
       60 40 Wall []"

text \<open>One game in which no arrow key is pressed: the snake runs into the wall.\<close>

definition idle_game :: AIGameMaster where
  "idle_game = update_player_stats initial_ai 0 5 Wall []"

text \<open>One game in which the player presses right, then up.\<close>

definition right_up_game :: AIGameMaster where
  "right_up_game = update_player_stats initial_ai 0 5 Wall [Right, Up]"

section \<open>Skill classification and difficulty adaptation\<close>

lemma analyze_table:
  "analyze_skill_level ai =
     skill_table (games_played (player_data ai)) (avg_score (player_data ai))
       (avg_game_time (player_data ai))"
  by (simp add: analyze_skill_level_def skill_table_def Let_def)

lemma table_mono:
  assumes "3 \<le> n" "3 \<le> m" "s \<le> s'" "t \<le> t'"
  shows "tier_rank (skill_table n s t) \<le> tier_rank (skill_table m s' t')"
  using assms by (simp add: skill_table_def tier_rank_def)

lemma ups_fields:
  "games_played (player_data (update_player_stats ai s t c m)) = games_played (player_data ai) + 1"
  "avg_score (player_data (update_player_stats ai s t c m)) =
     (avg_score (player_data ai) * real (games_played (player_data ai)) + real_of_int s)
       / real (games_played (player_data ai) + 1)"
  "avg_game_time (player_data (update_player_stats ai s t c m)) =
     (avg_game_time (player_data ai) * real (games_played (player_data ai)) + t)
       / real (games_played (player_data ai) + 1)"
  "skill_level (player_data (update_player_stats ai s t c m)) = skill_level (player_data ai)"
  "movement_patterns (player_data (update_player_stats ai s t c m)) =
     (let ps = movement_patterns (player_data ai) @ [last_n 20 m]
      in if length ps > 50 then tl ps else ps)"
  by (simp_all add: update_player_stats_def Let_def)

lemma three_good_fields:
  "games_played (player_data three_good_games) = 3"
  "avg_score (player_data three_good_games) = 300"
  "avg_game_time (player_data three_good_games) = 200"
  "skill_level (player_data three_good_games) = Beginner"
  by (simp_all add: three_good_games_def ups_fields initial_ai_def)

lemma three_fair_fields:
  "games_played (player_data three_fair_games) = 3"
  "avg_score (player_data three_fair_games) = 60"
  "avg_game_time (player_data three_fair_games) = 40"
  by (simp_all add: three_fair_games_def ups_fields initial_ai_def)

lemma three_good_expert: "analyze_skill_level three_good_games = Expert"
  by (simp add: analyze_skill_level_def three_good_fields)

lemma three_fair_intermediate: "analyze_skill_level three_fair_games = Intermediate"
  by (simp add: analyze_skill_level_def three_fair_fields)

text \<open>
  Claim C5. \<open>analyze_skill_level\<close> is the first-match table of the specification, and it is
  monotonic: of two profiles with at least three games, the one whose average score and
  average game time are both at least the other's has a tier rank at least the other's.
\<close>

theorem skill_classifier_table_monotonic:
  "analyze_skill_level p =
     skill_table (games_played (player_data p)) (avg_score (player_data p))
       (avg_game_time (player_data p))
   \<and> (3 \<le> games_played (player_data p) \<and> 3 \<le> games_played (player_data q)
      \<and> avg_score (player_data p) \<le> avg_score (player_data q)
      \<and> avg_game_time (player_data p) \<le> avg_game_time (player_data q)
      \<longrightarrow> tier_rank (analyze_skill_level p) \<le> tier_rank (analyze_skill_level q))"
  by (simp add: analyze_table table_mono)

theorem skill_classifier_table_monotonic_witness:
  "3 \<le> games_played (player_data three_fair_games)
   \<and> 3 \<le> games_played (player_data three_good_games)
   \<and> avg_score (player_data three_fair_games) \<le> avg_score (player_data three_good_games)
   \<and> avg_game_time (player_data three_fair_games) \<le> avg_game_time (player_data three_good_games)
   \<and> analyze_skill_level three_fair_games = Intermediate
   \<and> analyze_skill_level three_good_games = Expert
   \<and> tier_rank (analyze_skill_level three_fair_games)
       \<le> tier_rank (analyze_skill_level three_good_games)"
  using skill_classifier_table_monotonic[of three_fair_games three_good_games]
  by (simp add: three_good_fields three_fair_fields three_good_expert three_fair_intermediate)

lemma adapt_normal:
  "adapt_difficulty ai cs gt =
     ai\<lparr>player_data := (player_data ai)\<lparr>skill_level := analyze_skill_level ai\<rparr>,
        base_speed := base_speeds (analyze_skill_level ai),
        current_speed := speed_for (analyze_skill_level ai) (avg_score (player_data ai)) cs,
        power_up_frequency := frequency_for (analyze_skill_level ai)\<rparr>"
  by (simp add: adapt_difficulty_def Let_def speed_for_def frequency_for_def)

lemma adapt_pd:
  "player_data (adapt_difficulty ai cs gt) =
     (player_data ai)\<lparr>skill_level := analyze_skill_level ai\<rparr>"
  by (simp add: adapt_normal)

lemma analyze_cong:
  "games_played (player_data a) = games_played (player_data b) \<Longrightarrow>
   avg_score (player_data a) = avg_score (player_data b) \<Longrightarrow>
   avg_game_time (player_data a) = avg_game_time (player_data b) \<Longrightarrow>
   analyze_skill_level a = analyze_skill_level b"
  by (simp add: analyze_skill_level_def)

lemma analyze_adapt: "analyze_skill_level (adapt_difficulty ai cs gt) = analyze_skill_level ai"
  by (rule analyze_cong) (simp_all add: adapt_pd)

lemma adapt_idem:
  "adapt_difficulty (adapt_difficulty ai cs gt) cs gt' = adapt_difficulty ai cs gt"
proof -
  have a: "analyze_skill_level (adapt_difficulty ai cs gt) = analyze_skill_level ai"
    by (rule analyze_adapt)
  show ?thesis
    by (subst adapt_normal[of "adapt_difficulty ai cs gt"], simp only: a adapt_pd)
       (simp add: adapt_normal)
qed

lemma base_bounds: "8 \<le> base_speeds s \<and> base_speeds s \<le> 20"
  by (cases s) simp_all

lemma speed_for_bounds: "6 \<le> speed_for sk avg cs \<and> speed_for sk avg cs \<le> 25"
  using base_bounds[of sk] by (simp add: speed_for_def)

text \<open>
  Claim C6. The speed that \<open>adapt_difficulty\<close> stores is the specification's formula over
  the base rates 8, 12, 16 and 20, and for every tier, every current score and every
  average score it lies in the closed interval from 6 to 25. The two comparisons of the
  source are floating-point comparisons; the bounds hold whichever way they come out.
\<close>

theorem speed_in_range:
  "current_speed (adapt_difficulty ai cs gt) =
     speed_for (analyze_skill_level ai) (avg_score (player_data ai)) cs
   \<and> 6 \<le> speed_for sk avg cs \<and> speed_for sk avg cs \<le> 25
   \<and> 6 \<le> current_speed (adapt_difficulty ai cs gt)
   \<and> current_speed (adapt_difficulty ai cs gt) \<le> 25"
  using speed_for_bounds[of sk avg cs]
    speed_for_bounds[of "analyze_skill_level ai" "avg_score (player_data ai)" cs]
  by (simp add: adapt_normal)

theorem speed_in_range_witness:
  "current_speed (adapt_difficulty three_good_games 400 0) = 23
   \<and> current_speed (adapt_difficulty initial_ai (- 5) 0) = 6"
  using speed_in_range[of three_good_games 400 0 Expert 300]
  by (simp add: adapt_normal three_good_expert three_good_fields speed_for_def
        analyze_skill_level_def initial_ai_def)

text \<open>
  Claim C2, as the code has it. A second adaptation call on the same snapshot returns the
  object the first one returned, so both outputs are the same; and the call leaves every
  field of the profile unchanged except \<open>skill_level\<close>, which it overwrites with the tier
  it has just computed.
\<close>

theorem adapt_idempotent_frame:
  "adapt_difficulty (adapt_difficulty ai cs gt) cs gt = adapt_difficulty ai cs gt
   \<and> player_data (adapt_difficulty ai cs gt)
       = (player_data ai)\<lparr>skill_level := analyze_skill_level ai\<rparr>"
  by (simp add: adapt_idem adapt_pd)

theorem adapt_idempotent_frame_witness:
  "adapt_difficulty (adapt_difficulty three_good_games 0 0) 0 0
     = adapt_difficulty three_good_games 0 0
   \<and> skill_level (player_data (adapt_difficulty three_good_games 0 0)) = Expert
   \<and> avg_score (player_data (adapt_difficulty three_good_games 0 0)) = 300"
  using adapt_idempotent_frame[of three_good_games 0 0]
  by (simp add: three_good_expert three_good_fields)

text \<open>
  Claim C2 as stated fails: after three good games the stored \<open>skill_level\<close> is still
  \<open>Beginner\<close>, and the first adaptation call of the next game changes the profile.
\<close>

theorem adapt_changes_profile:
  "player_data (adapt_difficulty three_good_games 0 0) \<noteq> player_data three_good_games"
proof
  assume "player_data (adapt_difficulty three_good_games 0 0) = player_data three_good_games"
  then have "skill_level (player_data (adapt_difficulty three_good_games 0 0))
               = skill_level (player_data three_good_games)" by simp
  then show False by (simp add: adapt_pd three_good_expert three_good_fields)
qed

section \<open>Move prediction\<close>

lemma first_seen_Nil: "first_seen [] = []"
  by (simp add: first_seen_def)

lemma first_seen_snoc:
  "first_seen (xs @ [x]) = (if x \<in> set xs then first_seen xs else first_seen xs @ [x])"
  by (simp add: first_seen_def)

lemma set_first_seen: "set (first_seen xs) = set xs"
  by (simp add: first_seen_def)

lemma distinct_first_seen: "distinct (first_seen xs)"
  by (simp add: first_seen_def)

lemma first_seen_Nil_iff: "first_seen xs = [] \<longleftrightarrow> xs = []"
  using set_first_seen[of xs] by (metis set_empty)

text \<open>The nested loops count the pooled list.\<close>

lemma foldl_count_pattern: "foldl count_pattern w ps = count_pattern w (concat ps)"
  by (induction ps arbitrary: w) (simp_all add: count_pattern_def)

lemma count_patterns_concat: "count_patterns ps = count_pattern [] (concat ps)"
  by (simp add: count_patterns_def foldl_count_pattern)

lemma count_pattern_snoc: "count_pattern w (xs @ [x]) = bump x (count_pattern w xs)"
  by (simp add: count_pattern_def)

lemma bump_map:
  "distinct ks \<Longrightarrow>
   bump d (map (\<lambda>k. (k, f k)) ks) =
     (if d \<in> set ks then map (\<lambda>k. (k, if k = d then f k + 1 else f k)) ks
      else map (\<lambda>k. (k, f k)) ks @ [(d, 1)])"
  by (induction ks) auto

text \<open>The dictionary holds each direction that occurs, in the order of first occurrence,
  with the number of its occurrences.\<close>

lemma count_pattern_first_seen:
  "count_pattern [] xs = map (\<lambda>k. (k, count_list xs k)) (first_seen xs)"
proof (induction xs rule: rev_induct)
  case Nil
  show ?case by (simp add: count_pattern_def first_seen_def)
next
  case (snoc x xs)
  show ?case
  proof (cases "x \<in> set xs")
    case True
    then show ?thesis
      by (simp add: count_pattern_snoc snoc bump_map distinct_first_seen set_first_seen
            first_seen_snoc)
  next
    case False
    then have "count_list xs x = 0" by (simp add: count_list_0_iff)
    with False show ?thesis
      by (auto simp add: count_pattern_snoc snoc bump_map distinct_first_seen set_first_seen
            first_seen_snoc)
  qed
qed

text \<open>\<open>max\<close> returns the first key whose count is maximal.\<close>

lemma max_from_first_max:
  "max_from k (f k) (map (\<lambda>j. (j, f j)) ks) = r \<Longrightarrow>
   r \<in> set (k # ks) \<and> (\<forall>j \<in> set (k # ks). f j \<le> f r) \<and>
   (\<forall>j \<in> set (takeWhile (\<lambda>j. j \<noteq> r) (k # ks)). f j < f r)"
proof (induction ks arbitrary: k)
  case Nil
  then show ?case by simp
next
  case (Cons j js)
  show ?case
  proof (cases "f j > f k")
    case True
    with Cons.prems have "max_from j (f j) (map (\<lambda>j. (j, f j)) js) = r" by simp
    from Cons.IH[OF this] True show ?thesis by (auto split: if_splits)
  next
    case False
    with Cons.prems have "max_from k (f k) (map (\<lambda>j. (j, f j)) js) = r" by simp
    from Cons.IH[OF this] False show ?thesis by (fastforce split: if_splits)
  qed
qed

lemma takeWhile_all: "\<forall>x\<in>set xs. P x \<Longrightarrow> takeWhile P xs = xs"
  by (induction xs) auto

lemma takeWhile_first_seen:
  "set (takeWhile P (first_seen xs)) = set (takeWhile P xs)"
proof (induction xs rule: rev_induct)
  case Nil
  show ?case by (simp add: first_seen_Nil)
next
  case (snoc x xs)
  show ?case
  proof (cases "\<forall>y\<in>set xs. P y")
    case True
    then have a: "takeWhile P xs = xs" "takeWhile P (first_seen xs) = first_seen xs"
      by (simp_all add: takeWhile_all set_first_seen)
    from True show ?thesis
      by (auto simp add: first_seen_snoc takeWhile_append set_first_seen a)
  next
    case False
    then show ?thesis
      using snoc by (auto simp add: first_seen_snoc takeWhile_append set_first_seen)
  qed
qed

lemma last_n_Nil: "last_n n [] = []"
  by (simp add: last_n_def)

lemma predict_pooled:
  "predict_next_move ai h d =
     (case map (\<lambda>k. (k, count_list (pooled ai) k)) (first_seen (pooled ai)) of
        (k, c) # w \<Rightarrow> Some (max_from k c w)
      | [] \<Rightarrow> None)"
proof (cases "movement_patterns (player_data ai) = []")
  case True
  then show ?thesis
    by (simp add: predict_next_move_def pooled_def last_n_Nil first_seen_Nil)
next
  case False
  then show ?thesis
    by (simp add: predict_next_move_def pooled_def Let_def count_patterns_concat
          count_pattern_first_seen)
qed

lemma predict_Some_props:
  assumes "predict_next_move ai h d = Some r"
  shows "r \<in> set (pooled ai)"
    and "\<forall>j \<in> set (pooled ai). count_list (pooled ai) j \<le> count_list (pooled ai) r"
    and "\<forall>j \<in> set (takeWhile (\<lambda>j. j \<noteq> r) (pooled ai)).
           count_list (pooled ai) j < count_list (pooled ai) r"
proof -
  obtain k ks where ks: "first_seen (pooled ai) = k # ks"
    using assms unfolding predict_pooled by (cases "first_seen (pooled ai)") simp_all
  with assms have "max_from k (count_list (pooled ai) k)
                     (map (\<lambda>j. (j, count_list (pooled ai) j)) ks) = r"
    unfolding predict_pooled by simp
  from max_from_first_max[OF this]
  have m: "r \<in> set (first_seen (pooled ai))"
      "\<forall>j \<in> set (first_seen (pooled ai)). count_list (pooled ai) j \<le> count_list (pooled ai) r"
      "\<forall>j \<in> set (takeWhile (\<lambda>j. j \<noteq> r) (first_seen (pooled ai))).
           count_list (pooled ai) j < count_list (pooled ai) r"
    unfolding ks by blast+
  show "r \<in> set (pooled ai)" using m(1) by (simp add: set_first_seen)
  show "\<forall>j \<in> set (pooled ai). count_list (pooled ai) j \<le> count_list (pooled ai) r"
    using m(2) by (simp add: set_first_seen)
  show "\<forall>j \<in> set (takeWhile (\<lambda>j. j \<noteq> r) (pooled ai)).
           count_list (pooled ai) j < count_list (pooled ai) r"
    using m(3) by (simp add: takeWhile_first_seen)
qed

lemma idle_patterns: "movement_patterns (player_data idle_game) = [[]]"
  by (simp add: idle_game_def ups_fields initial_ai_def last_n_def)

lemma right_up_patterns: "movement_patterns (player_data right_up_game) = [[Right, Up]]"
  by (simp add: right_up_game_def ups_fields initial_ai_def last_n_def)

text \<open>
  Claim C3, as the code has it. \<open>predict_next_move\<close> returns \<open>None\<close> if and only if the
  ten most recent history entries hold no direction at all, which is the case whenever
  the history is empty; whenever it returns a direction, that direction occurs among
  them.
\<close>

theorem predict_none_iff:
  "(predict_next_move ai h d = None \<longleftrightarrow> pooled ai = [])
   \<and> (movement_patterns (player_data ai) = [] \<longrightarrow> predict_next_move ai h d = None)
   \<and> (predict_next_move ai h d = Some r \<longrightarrow> r \<in> set (pooled ai))"
proof -
  have "predict_next_move ai h d = None \<longleftrightarrow> first_seen (pooled ai) = []"
    unfolding predict_pooled by (cases "first_seen (pooled ai)") simp_all
  then have a: "predict_next_move ai h d = None \<longleftrightarrow> pooled ai = []"
    by (simp add: first_seen_Nil_iff)
  have "movement_patterns (player_data ai) = [] \<Longrightarrow> pooled ai = []"
    by (simp add: pooled_def last_n_Nil)
  with a predict_Some_props(1)[of ai h d r] show ?thesis by blast
qed

theorem predict_none_iff_witness:
  "predict_next_move initial_ai (20, 12) Right = None
   \<and> movement_patterns (player_data initial_ai) = []
   \<and> pooled initial_ai = []"
  using predict_none_iff[of initial_ai "(20, 12)" Right Right]
  by (simp add: pooled_def initial_ai_def last_n_def)

text \<open>
  Claim C3 as stated fails: after one game in which no key was pressed the history is
  not empty, and the prediction is \<open>None\<close>.
\<close>

theorem predict_none_on_idle:
  "movement_patterns (player_data idle_game) \<noteq> []
   \<and> predict_next_move idle_game (20, 12) Right = None"
  by (simp add: idle_patterns predict_next_move_def last_n_def count_patterns_def
        count_pattern_def)

text \<open>
  Claim C4, as the code has it. The direction \<open>predict_next_move\<close> returns has the
  maximum pooled count over the ten most recent history entries, and every direction
  that occurs in the pooled sequence before its first occurrence has a strictly smaller
  count: among tied directions the one that occurs first in the pooled sequence wins.
  The result is a function of the history alone.
\<close>

theorem predict_first_maximum:
  "(predict_next_move ai h d = Some r \<longrightarrow>
      r \<in> set (pooled ai)
      \<and> (\<forall>j \<in> set (pooled ai). count_list (pooled ai) j \<le> count_list (pooled ai) r)
      \<and> (\<forall>j \<in> set (takeWhile (\<lambda>j. j \<noteq> r) (pooled ai)).
            count_list (pooled ai) j < count_list (pooled ai) r))
   \<and> (movement_patterns (player_data ai) = movement_patterns (player_data ai') \<longrightarrow>
        predict_next_move ai h d = predict_next_move ai' h' d')"
proof -
  have "movement_patterns (player_data ai) = movement_patterns (player_data ai') \<Longrightarrow>
        predict_next_move ai h d = predict_next_move ai' h' d'"
    by (simp add: predict_next_move_def)
  then show ?thesis using predict_Some_props[of ai h d r] by blast
qed

theorem predict_first_maximum_witness:
  "predict_next_move right_up_game (20, 12) Right = Some Right
   \<and> Right \<in> set (pooled right_up_game)
   \<and> count_list (pooled right_up_game) Up \<le> count_list (pooled right_up_game) Right"
proof -
  have p: "pooled right_up_game = [Right, Up]"
    by (simp add: pooled_def right_up_patterns last_n_def)
  have s: "predict_next_move right_up_game (20, 12) Right = Some Right"
    by (simp add: right_up_patterns predict_next_move_def last_n_def
        count_patterns_def count_pattern_def)
  from predict_first_maximum[of right_up_game "(20, 12)" Right Right right_up_game
         "(20, 12)" Right] s
  show ?thesis by (simp add: p)
qed

text \<open>
  Claim C4 as stated fails: after a game with the moves right, up, both directions have
  count 1; the code predicts \<open>Right\<close>, the priority order \<open>Up, Down, Left, Right\<close> gives \<open>Up\<close>.
\<close>

theorem predict_ignores_priority:
  "predict_next_move right_up_game (20, 12) Right = Some Right
   \<and> predict_by_priority (movement_patterns (player_data right_up_game)) = Some Up"
  by (simp add: right_up_patterns predict_next_move_def predict_by_priority_def last_n_def
        count_patterns_def count_pattern_def)

end
